theory Spec2Isabelle
  imports Main "HOL-Library.Sublist"
begin

section \<open>Job definitions of django-rq-scheduler\<close>

text \<open>
  The development embeds \<^verbatim>\<open>scheduler/models.py\<close> and \<^verbatim>\<open>scheduler/forms.py\<close>.
  A job definition is a Django model: \<^verbatim>\<open>BaseJob\<close> holds the shared fields and
  the life cycle (\<^verbatim>\<open>save\<close>, \<^verbatim>\<open>delete\<close>, \<^verbatim>\<open>schedule\<close>, \<^verbatim>\<open>unschedule\<close>), and
  \<^verbatim>\<open>ScheduledJob\<close>, \<^verbatim>\<open>RepeatableJob\<close> and \<^verbatim>\<open>CronJob\<close> are its three concrete
  classes. The methods mutate \<^verbatim>\<open>self\<close> and talk to two collaborators that are
  not part of the repository: the rq scheduler of the job's queue and the database
  behind \<^verbatim>\<open>Model.save\<close>. Both are modelled as state that is passed along, and every
  exception of the source is a value.
\<close>

subsection \<open>Exceptions\<close>

datatype error =
    KeyError            \<comment> \<open>\<^verbatim>\<open>django_rq.get_scheduler\<close>: the queue is not in \<^verbatim>\<open>settings.RQ_QUEUES\<close>\<close>
  | ImportError         \<comment> \<open>\<^verbatim>\<open>importlib.import_module\<close>: no such module\<close>
  | ValueError          \<comment> \<open>\<^verbatim>\<open>importlib.import_module\<close>: the module name is empty\<close>
  | AttributeError      \<comment> \<open>\<^verbatim>\<open>getattr(module, name)\<close>\<close>
  | TypeError           \<comment> \<open>\<^verbatim>\<open>callable_func\<close>: the object is not callable;
                            \<^verbatim>\<open>importlib.import_module\<close>: a relative name\<close>
  | OverflowError       \<comment> \<open>\<^verbatim>\<open>datetime.timedelta\<close>: more than 999999999 days\<close>
  | BackendError        \<comment> \<open>any exception a call to the rq scheduler raises\<close>
  | StoreError          \<comment> \<open>any exception \<^verbatim>\<open>Model.save\<close> or \<^verbatim>\<open>Model.delete\<close> raises\<close>
  | FormValidationError \<comment> \<open>\<^verbatim>\<open>django.forms.ValidationError\<close> of \<^verbatim>\<open>clean_scheduled_time\<close>,
                            "the scheduled time must be in the future"\<close>

subsection \<open>The model classes\<close>

text \<open>
  \<^verbatim>\<open>RepeatableJob.UNITS\<close>: the four choices of \<^verbatim>\<open>interval_unit\<close>.
\<close>

datatype interval_unit = minutes | hours | days | weeks

text \<open>
  A Python object found by \<^verbatim>\<open>getattr\<close>: a function, named by its dotted path, or
  something that \<^verbatim>\<open>callable()\<close> rejects.
\<close>

datatype pyobj = Function string | NotCallable

text \<open>
  The fields the three concrete classes add to \<^verbatim>\<open>BaseJob\<close>. Datetimes are
  instants, in microseconds since the epoch; \<^verbatim>\<open>PositiveIntegerField\<close> is a
  natural number, and a nullable field is an option.
\<close>

datatype job_kind =
    ScheduledJob (scheduled_time: int)
  | RepeatableJob (scheduled_time: int) (interval: nat) (interval_unit: interval_unit)
      (repeat: "nat option")
  | CronJob (cron_string: string) (repeat: "nat option")

text \<open>
  \<^verbatim>\<open>BaseJob\<close>. \<^verbatim>\<open>job_id\<close> is the nullable, blank-able character field that holds
  the id of the job in the rq scheduler; \<^verbatim>\<open>timeout\<close> is a nullable integer. The
  class of the instance and the fields it adds are in \<open>kind\<close>. The primary key and the
  two timestamps of \<^verbatim>\<open>TimeStampedModel\<close> play no part in the methods and are left out.
\<close>

record job =
  name :: string
  callable :: string
  enabled :: bool
  queue :: string
  job_id :: "string option"
  timeout :: "int option"
  kind :: job_kind

subsection \<open>The collaborators\<close>

text \<open>
  What the source passes to the scheduler: \<^verbatim>\<open>enqueue_at(time, func, **kwargs)\<close>,
  \<^verbatim>\<open>schedule(scheduled_time, func, interval, repeat[, timeout])\<close> and
  \<^verbatim>\<open>cron(func, cron_string, repeat[, timeout])\<close>. The last argument is the
  \<^verbatim>\<open>timeout\<close> keyword: \<open>None\<close> when the keyword is not passed.
\<close>

datatype call =
    EnqueueAt int pyobj "int option"
  | Schedule int pyobj int "nat option" "int option"
  | Cron pyobj string "nat option" "int option"

fun timeout_passed :: "call \<Rightarrow> int option" where
  "timeout_passed (EnqueueAt t f k) = k"
| "timeout_passed (Schedule t f i r k) = k"
| "timeout_passed (Cron f c r k) = k"

text \<open>
  The effects a run leaves behind, in the order they happen: a job accepted by the
  scheduler (with the id it was given), a \<^verbatim>\<open>cancel\<close>, a job the scheduler took
  out of its set by itself because it ran, and the writes of the database.
\<close>

datatype event =
    Enqueued call string
  | Cancelled "string option"
  | Ran string
  | StoreSaved job
  | StoreDeleted job

text \<open>
  Which calls to the collaborators raise. The flags are part of the environment: they
  hold while one method runs and may change between two of them.
\<close>

record faults =
  contains_fails :: bool
  cancel_fails :: bool
  enqueue_fails :: bool
  store_fails :: bool

text \<open>
  The state a method works on: the model instance \<^verbatim>\<open>self\<close>; the configuration, which
  is the names of \<^verbatim>\<open>settings.RQ_QUEUES\<close>, the Redis connection each queue is configured
  with, and the importable modules; the schedulers, which keep their set of scheduled
  jobs in Redis, one set per connection, and the number of ids they have handed out;
  the row of the instance in the database; and the effects so far.
  \<^verbatim>\<open>django_rq.get_scheduler(name)\<close> is the scheduler on the connection of the queue
  \<^verbatim>\<open>name\<close>: two queues see the same scheduled jobs when they are configured with the
  same connection, and different ones otherwise.
\<close>

record world =
  self :: job
  rq_queues :: "string set"
  connection :: "string \<Rightarrow> nat"
  modules :: "string \<Rightarrow> (string \<Rightarrow> pyobj option) option"
  redis :: "nat \<Rightarrow> string set"
  issued :: nat
  row :: "job option"
  trace :: "event list"
  faults :: faults

type_synonym 'a action = "world \<Rightarrow> (error + 'a) \<times> world"

definition returns :: "'a \<Rightarrow> 'a action" where
  "returns x w = (Inr x, w)"

definition raises :: "error \<Rightarrow> 'a action" where
  "raises e w = (Inl e, w)"

text \<open>
  Sequencing: an exception of the first action ends the run, with the state as the
  action left it.
\<close>

definition and_then :: "'a action \<Rightarrow> ('a \<Rightarrow> 'b action) \<Rightarrow> 'b action" where
  "and_then m f w = (case m w of (Inl e, w') \<Rightarrow> (Inl e, w') | (Inr x, w') \<Rightarrow> f x w')"

text \<open>
  The id of the \<open>n\<close>-th job the scheduler accepts. rq draws a fresh uuid for every
  job; the model keeps of it that ids are never empty and never handed out twice.
\<close>

definition new_job_id :: "nat \<Rightarrow> string" where
  "new_job_id n = ''job-'' @ replicate n (CHR ''i'')"

text \<open>
  The rq scheduler on the connection \<open>k\<close>, as the source uses it.
  \<^verbatim>\<open>item in scheduler\<close> looks the id up in the set of scheduled jobs (\<^verbatim>\<open>None\<close> is the
  id of no job); \<^verbatim>\<open>cancel\<close> removes the id from the set, whether it is there or not;
  the three enqueueing calls add a job under a fresh id and return it. A call that
  raises leaves the set as it was.
\<close>

definition scheduler_contains :: "nat \<Rightarrow> string option \<Rightarrow> bool action" where
  "scheduler_contains k item w =
     (if contains_fails (faults w) then raises BackendError w
      else returns (case item of None \<Rightarrow> False | Some h \<Rightarrow> h \<in> redis w k) w)"

definition scheduler_cancel :: "nat \<Rightarrow> string option \<Rightarrow> unit action" where
  "scheduler_cancel k item w =
     (if cancel_fails (faults w) then raises BackendError w
      else returns ()
        (w\<lparr>redis := (redis w)(k := redis w k - set_option item),
           trace := trace w @ [Cancelled item]\<rparr>))"

definition scheduler_enqueue :: "nat \<Rightarrow> call \<Rightarrow> string action" where
  "scheduler_enqueue k c w =
     (if enqueue_fails (faults w) then raises BackendError w
      else returns (new_job_id (issued w))
        (w\<lparr>redis := (redis w)(k := insert (new_job_id (issued w)) (redis w k)),
           issued := Suc (issued w),
           trace := trace w @ [Enqueued c (new_job_id (issued w))]\<rparr>))"

text \<open>
  \<^verbatim>\<open>Model.save\<close> and \<^verbatim>\<open>Model.delete\<close> of Django: the row of the instance is
  written with the fields the instance has at that moment, or removed.
\<close>

definition Model_save :: "unit action" where
  "Model_save w =
     (if store_fails (faults w) then raises StoreError w
      else returns () (w\<lparr>row := Some (self w), trace := trace w @ [StoreSaved (self w)]\<rparr>))"

definition Model_delete :: "unit action" where
  "Model_delete w =
     (if store_fails (faults w) then raises StoreError w
      else returns () (w\<lparr>row := None, trace := trace w @ [StoreDeleted (self w)]\<rparr>))"

subsection \<open>Python values\<close>

text \<open>
  Truth of a nullable string and of a nullable integer in a Python condition:
  \<^verbatim>\<open>None\<close>, the empty string and zero are false.
\<close>

fun truthy_str :: "string option \<Rightarrow> bool" where
  "truthy_str None = False"
| "truthy_str (Some s) = (s \<noteq> [])"

fun truthy_int :: "int option \<Rightarrow> bool" where
  "truthy_int None = False"
| "truthy_int (Some i) = (i \<noteq> 0)"

text \<open>
  \<^verbatim>\<open>str.split(sep)\<close> for a one-character separator, and \<^verbatim>\<open>sep.join(parts)\<close>.
  A split has at least one part, so the second branch of the \<open>case\<close> is never taken
  (\<open>str_split_parts\<close> below).
\<close>

fun str_split :: "char \<Rightarrow> string \<Rightarrow> string list" where
  "str_split sep [] = [[]]"
| "str_split sep (c # cs) =
     (if c = sep then [] # str_split sep cs
      else (case str_split sep cs of p # ps \<Rightarrow> (c # p) # ps | [] \<Rightarrow> [[c]]))"

fun str_join :: "string \<Rightarrow> string list \<Rightarrow> string" where
  "str_join sep [] = []"
| "str_join sep [p] = p"
| "str_join sep (p # q # ps) = p @ sep @ str_join sep (q # ps)"

text \<open>
  \<^verbatim>\<open>datetime.timedelta(**{unit: n})\<close> for one of the four units and an integer
  \<open>n\<close>: the duration is normalised to days and seconds of the day (the microseconds
  are zero), and a duration of more than 999999999 days is refused.
  \<^verbatim>\<open>total_seconds()\<close> is \<^verbatim>\<open>(days * 86400 + seconds) * 10**6 / 10**6\<close>; the quotient
  is a whole number below \<open>2 ^ 53\<close>, so the float it returns is that number.
\<close>

fun unit_seconds :: "interval_unit \<Rightarrow> int" where
  "unit_seconds minutes = 60"
| "unit_seconds hours = 3600"
| "unit_seconds days = 86400"
| "unit_seconds weeks = 604800"

definition timedelta :: "interval_unit \<Rightarrow> int \<Rightarrow> error + int \<times> int" where
  "timedelta u n =
     (let d = (n * unit_seconds u) div 86400; s = (n * unit_seconds u) mod 86400
      in if \<bar>d\<bar> > 999999999 then Inl OverflowError else Inr (d, s))"

definition total_seconds :: "int \<times> int \<Rightarrow> int" where
  "total_seconds td = fst td * 86400 + snd td"

subsection \<open>The methods of the models\<close>

text \<open>
  \<^verbatim>\<open>BaseJob.callable_func\<close>: the dotted path is split at its dots, the module named
  by all parts but the last is imported, and the last part is looked up in it.
  \<^verbatim>\<open>importlib.import_module\<close> reads the modules the process can import; it
  refuses an empty name, and a relative name since no package is given.
\<close>

definition import_module :: "string \<Rightarrow> (string \<Rightarrow> pyobj option) action" where
  "import_module m w =
     (if m = [] then raises ValueError w
      else if hd m = CHR ''.'' then raises TypeError w
      else case modules w m of None \<Rightarrow> raises ImportError w | Some module \<Rightarrow> returns module w)"

definition callable_func :: "pyobj action" where
  "callable_func w =
     (let path = str_split (CHR ''.'') (callable (self w)) in
      and_then (import_module (str_join ''.'' (butlast path)))
        (\<lambda>module.
           case module (last path) of
             None \<Rightarrow> raises AttributeError
           | Some func \<Rightarrow> if func = NotCallable then raises TypeError else returns func) w)"

text \<open>
  \<^verbatim>\<open>BaseJob.scheduler\<close>: \<^verbatim>\<open>django_rq.get_scheduler(self.queue)\<close>, the scheduler
  on the connection of the queue the instance names at that moment.
\<close>

definition scheduler :: "nat action" where
  "scheduler w =
     (if queue (self w) \<in> rq_queues w then returns (connection w (queue (self w))) w
      else raises KeyError w)"

text \<open>\<^verbatim>\<open>BaseJob.is_scheduled\<close>: \<^verbatim>\<open>self.job_id in self.scheduler()\<close>.\<close>

definition is_scheduled :: "bool action" where
  "is_scheduled = and_then scheduler (\<lambda>k w. scheduler_contains k (job_id (self w)) w)"

text \<open>\<^verbatim>\<open>BaseJob.is_schedulable\<close>.\<close>

definition is_schedulable :: "job \<Rightarrow> bool" where
  "is_schedulable j = (if truthy_str (job_id j) then False else enabled j)"

text \<open>
  The \<^verbatim>\<open>timeout\<close> keyword of the three \<^verbatim>\<open>schedule\<close> methods:
  \<^verbatim>\<open>if self.timeout: kwargs['timeout'] = self.timeout\<close>.
\<close>

definition timeout_kwarg :: "job \<Rightarrow> int option" where
  "timeout_kwarg j = (if truthy_int (timeout j) then timeout j else None)"

text \<open>\<^verbatim>\<open>RepeatableJob.interval_seconds\<close>; the other classes have no such method.\<close>

fun interval_seconds :: "job_kind \<Rightarrow> error + int" where
  "interval_seconds (RepeatableJob t n u r) =
     (case timedelta u (int n) of Inl e \<Rightarrow> Inl e | Inr td \<Rightarrow> Inr (total_seconds td))"
| "interval_seconds _ = Inl AttributeError"

text \<open>
  \<^verbatim>\<open>schedule_time_utc\<close>: \<^verbatim>\<open>utc(self.scheduled_time)\<close> is the same instant, written
  in UTC.
\<close>

definition schedule_time_utc :: "job_kind \<Rightarrow> int" where
  "schedule_time_utc k = scheduled_time k"

text \<open>The assignment \<^verbatim>\<open>self.job_id = v\<close>.\<close>

definition set_job_id :: "string option \<Rightarrow> world \<Rightarrow> world" where
  "set_job_id v w = w\<lparr>self := (self w)\<lparr>job_id := v\<rparr>\<rparr>"

text \<open>
  \<^verbatim>\<open>schedule\<close>, one definition per class that has one. Python evaluates the receiver
  of a call before its arguments: \<^verbatim>\<open>BaseJob.schedule\<close> asks for the scheduler first
  and resolves the callable second, the two overriding methods build their keyword
  dictionary first.
\<close>

definition BaseJob_schedule :: "bool action" where
  "BaseJob_schedule w =
     (if is_schedulable (self w) = False then returns False w
      else and_then scheduler (\<lambda>k.
           and_then callable_func (\<lambda>func w1.
           and_then (scheduler_enqueue k
               (EnqueueAt (schedule_time_utc (kind (self w1))) func (timeout_kwarg (self w1))))
             (\<lambda>jid w2. returns True (set_job_id (Some jid) w2)) w1)) w)"

definition RepeatableJob_schedule :: "bool action" where
  "RepeatableJob_schedule w =
     (if is_schedulable (self w) = False then returns False w
      else and_then callable_func (\<lambda>func w1.
           case interval_seconds (kind (self w1)) of
             Inl e \<Rightarrow> raises e w1
           | Inr secs \<Rightarrow>
               and_then scheduler (\<lambda>k.
               and_then (scheduler_enqueue k
                   (Schedule (schedule_time_utc (kind (self w1))) func secs
                      (repeat (kind (self w1))) (timeout_kwarg (self w1))))
                 (\<lambda>jid w2. returns True (set_job_id (Some jid) w2))) w1) w)"

definition CronJob_schedule :: "bool action" where
  "CronJob_schedule w =
     (if is_schedulable (self w) = False then returns False w
      else and_then callable_func (\<lambda>func w1.
           and_then scheduler (\<lambda>k.
           and_then (scheduler_enqueue k
               (Cron func (cron_string (kind (self w1))) (repeat (kind (self w1)))
                  (timeout_kwarg (self w1))))
             (\<lambda>jid w2. returns True (set_job_id (Some jid) w2))) w1) w)"

text \<open>The method the class of the instance resolves \<^verbatim>\<open>self.schedule()\<close> to.\<close>

definition schedule :: "bool action" where
  "schedule w =
     (case kind (self w) of
        ScheduledJob t \<Rightarrow> BaseJob_schedule w
      | RepeatableJob t n u r \<Rightarrow> RepeatableJob_schedule w
      | CronJob c r \<Rightarrow> CronJob_schedule w)"

text \<open>\<^verbatim>\<open>BaseJob.unschedule\<close>.\<close>

definition unschedule :: "bool action" where
  "unschedule =
     and_then is_scheduled (\<lambda>live.
     and_then (if live
               then and_then scheduler (\<lambda>k w. scheduler_cancel k (job_id (self w)) w)
               else returns ())
       (\<lambda>_ w. returns True (set_job_id None w)))"

text \<open>\<^verbatim>\<open>BaseJob.save\<close> and \<^verbatim>\<open>BaseJob.delete\<close>.\<close>

definition save :: "unit action" where
  "save =
     and_then unschedule (\<lambda>_.
     and_then (\<lambda>w. if enabled (self w) then schedule w else returns False w)
       (\<lambda>_. Model_save))"

definition delete :: "unit action" where
  "delete = and_then unschedule (\<lambda>_. Model_delete)"

subsection \<open>The admin form\<close>

text \<open>
  \<^verbatim>\<open>JobAdminForm.clean_scheduled_time\<close>: \<open>data\<close> is the cleaned field and \<open>now\<close>
  what \<^verbatim>\<open>django.utils.timezone.now()\<close> returns when the method compares.
\<close>

definition clean_scheduled_time :: "int \<Rightarrow> int \<Rightarrow> error + int" where
  "clean_scheduled_time data now = (if data < now then Inl FormValidationError else Inr data)"

text \<open>
  Django runs \<^verbatim>\<open>clean_<name>\<close> for the field \<^verbatim>\<open><name>\<close> and files a
  \<^verbatim>\<open>ValidationError\<close> it raises under that name: the errors of the form after the
  field \<^verbatim>\<open>scheduled_time\<close> is cleaned.
\<close>

definition field_errors :: "int \<Rightarrow> int \<Rightarrow> (string \<times> error) list" where
  "field_errors data now =
     (case clean_scheduled_time data now of Inl e \<Rightarrow> [(''scheduled_time'', e)] | Inr v \<Rightarrow> [])"

subsection \<open>What a run leaves behind\<close>

text \<open>
  The connection of the queue the instance names, the scheduled jobs of the scheduler
  on it, and the state in which that set is \<open>S\<close>.
\<close>

definition conn :: "world \<Rightarrow> nat" where
  "conn w = connection w (queue (self w))"

definition scheduled_jobs :: "world \<Rightarrow> string set" where
  "scheduled_jobs w = redis w (conn w)"

definition set_scheduled :: "string set \<Rightarrow> world \<Rightarrow> world" where
  "set_scheduled S w = w\<lparr>redis := (redis w)(conn w := S)\<rparr>"

text \<open>The answer of the scheduler to \<^verbatim>\<open>self.job_id in self.scheduler()\<close>.\<close>

definition in_scheduler :: "world \<Rightarrow> bool" where
  "in_scheduler w = (case job_id (self w) of None \<Rightarrow> False | Some h \<Rightarrow> h \<in> scheduled_jobs w)"

text \<open>
  The state after \<^verbatim>\<open>unschedule\<close> has cancelled the job, and after a \<^verbatim>\<open>schedule\<close>
  whose call \<open>c\<close> the scheduler has accepted.
\<close>

definition cancelled :: "world \<Rightarrow> world" where
  "cancelled w =
     set_job_id None
       ((set_scheduled (scheduled_jobs w - set_option (job_id (self w))) w)
          \<lparr>trace := trace w @ [Cancelled (job_id (self w))]\<rparr>)"

definition accepted :: "call \<Rightarrow> world \<Rightarrow> world" where
  "accepted c w =
     set_job_id (Some (new_job_id (issued w)))
       ((set_scheduled (insert (new_job_id (issued w)) (scheduled_jobs w)) w)
          \<lparr>issued := Suc (issued w),
           trace := trace w @ [Enqueued c (new_job_id (issued w))]\<rparr>)"

text \<open>
  The call the \<^verbatim>\<open>schedule\<close> method of each class makes for the function \<open>func\<close>, and
  the conditions under which it gets that far and the scheduler accepts the call: the
  queue is configured, the callable resolves, the interval of a repeatable job is one
  \<^verbatim>\<open>timedelta\<close> holds, and the scheduler does not fail.
\<close>

definition enqueue_call :: "job \<Rightarrow> pyobj \<Rightarrow> call" where
  "enqueue_call j func =
     (case kind j of
        ScheduledJob t \<Rightarrow> EnqueueAt t func (timeout_kwarg j)
      | RepeatableJob t n u r \<Rightarrow> Schedule t func (int n * unit_seconds u) r (timeout_kwarg j)
      | CronJob c r \<Rightarrow> Cron func c r (timeout_kwarg j))"

definition interval_fits :: "job_kind \<Rightarrow> bool" where
  "interval_fits k =
     (case k of
        RepeatableJob t n u r \<Rightarrow> (int n * unit_seconds u) div 86400 \<le> 999999999
      | _ \<Rightarrow> True)"

definition registers :: "world \<Rightarrow> bool" where
  "registers w =
     (queue (self w) \<in> rq_queues w \<and> \<not> isl (fst (callable_func w)) \<and>
      interval_fits (kind (self w)) \<and> \<not> enqueue_fails (faults w))"




text \<open>
  The life of a job definition. \<^verbatim>\<open>save()\<close> is called; an exception it raises is seen
  by the caller, and the instance stays as the method left it. The instance is loaded
  again from its row (\<^verbatim>\<open>Model.objects.get\<close>, as the admin does for every request):
  it then has the fields that were last written. A caller assigns to an editable
  field; \<^verbatim>\<open>job_id\<close> is not editable and is assigned by \<^verbatim>\<open>schedule\<close> and
  \<^verbatim>\<open>unschedule\<close> only. The collaborators start or stop failing. The scheduler on a
  connection runs a job it has and drops it from its set.
\<close>

datatype assignment =
    SetName string
  | SetCallable string
  | SetEnabled bool
  | SetQueue string
  | SetTimeout "int option"
  | SetKind job_kind

fun assign :: "assignment \<Rightarrow> job \<Rightarrow> job" where
  "assign (SetName v) j = j\<lparr>name := v\<rparr>"
| "assign (SetCallable v) j = j\<lparr>callable := v\<rparr>"
| "assign (SetEnabled v) j = j\<lparr>enabled := v\<rparr>"
| "assign (SetQueue v) j = j\<lparr>queue := v\<rparr>"
| "assign (SetTimeout v) j = j\<lparr>timeout := v\<rparr>"
| "assign (SetKind v) j = j\<lparr>kind := v\<rparr>"

datatype step = Save | Reload | Assign assignment | Environment faults | JobRuns nat string

fun step_world :: "step \<Rightarrow> world \<Rightarrow> world" where
  "step_world Save w = snd (save w)"
| "step_world Reload w = (case row w of None \<Rightarrow> w | Some r \<Rightarrow> w\<lparr>self := r\<rparr>)"
| "step_world (Assign a) w = w\<lparr>self := assign a (self w)\<rparr>"
| "step_world (Environment fs) w = w\<lparr>faults := fs\<rparr>"
| "step_world (JobRuns k h) w =
     (if h \<in> redis w k
      then w\<lparr>redis := (redis w)(k := redis w k - {h}), trace := trace w @ [Ran h]\<rparr>
      else w)"

fun run :: "step list \<Rightarrow> world \<Rightarrow> world" where
  "run [] w = w"
| "run (s # ss) w = run ss (step_world s w)"








subsection \<open>The instances of the test suite\<close>

text \<open>
  \<^verbatim>\<open>ScheduledJobFactory\<close> of \<^verbatim>\<open>tests.py\<close>: an enabled job on the queue
  \<^verbatim>\<open>default\<close> that calls \<^verbatim>\<open>scheduled.tests.test_job\<close> one day after the epoch,
  in a process whose module \<^verbatim>\<open>scheduled.tests\<close> holds the function
  \<^verbatim>\<open>test_job\<close> and the string \<^verbatim>\<open>test_non_callable\<close>, with empty schedulers. The
  settings have a second queue, \<^verbatim>\<open>high\<close>, on a connection of its own.
\<close>

definition no_faults :: faults where
  "no_faults =
     \<lparr>contains_fails = False, cancel_fails = False, enqueue_fails = False,
      store_fails = False\<rparr>"

definition test_modules :: "string \<Rightarrow> (string \<Rightarrow> pyobj option) option" where
  "test_modules m =
     (if m = ''scheduled.tests''
      then Some (\<lambda>n. if n = ''test_job'' then Some (Function ''scheduled.tests.test_job'')
                     else if n = ''test_non_callable'' then Some NotCallable
                     else None)
      else None)"

definition test_connection :: "string \<Rightarrow> nat" where
  "test_connection q = (if q = ''high'' then 1 else 0)"

definition factory_job :: job where
  "factory_job =
     \<lparr>name = ''Addition 0'', callable = ''scheduled.tests.test_job'', enabled = True,
      queue = ''default'', job_id = None, timeout = None,
      kind = ScheduledJob 86400000000\<rparr>"

definition factory_world :: world where
  "factory_world =
     \<lparr>self = factory_job, rq_queues = {''default'', ''high''}, connection = test_connection,
      modules = test_modules, redis = (\<lambda>k. {}), issued = 0, row = None, trace = [],
      faults = no_faults\<rparr>"

text \<open>A registered job that was disabled and is about to be saved.\<close>

definition disabled_world :: world where
  "disabled_world =
     factory_world\<lparr>self := factory_job\<lparr>enabled := False, job_id := Some ''job-''\<rparr>,
                   redis := (\<lambda>k. {})(0 := {''job-''}), issued := 1\<rparr>"

text \<open>A registered, enabled job while the scheduler refuses to enqueue.\<close>

definition unreachable_world :: world where
  "unreachable_world =
     disabled_world\<lparr>self := factory_job\<lparr>job_id := Some ''job-''\<rparr>,
                    faults := no_faults\<lparr>enqueue_fails := True\<rparr>\<rparr>"

text \<open>
  \<^verbatim>\<open>test_unschedule\<close> and \<^verbatim>\<open>test_is_schedulable_already_scheduled\<close>: the instance
  holds the id \<^verbatim>\<open>'something'\<close>, which the scheduler does not know.
\<close>

definition stale_world :: world where
  "stale_world = factory_world\<lparr>self := factory_job\<lparr>job_id := Some ''something''\<rparr>\<rparr>"

text \<open>An instance whose timeout is zero, and one whose \<^verbatim>\<open>job_id\<close> is the empty string.\<close>

definition zero_timeout_world :: world where
  "zero_timeout_world = factory_world\<lparr>self := factory_job\<lparr>timeout := Some 0\<rparr>\<rparr>"

definition blank_id_world :: world where
  "blank_id_world = factory_world\<lparr>self := factory_job\<lparr>job_id := Some []\<rparr>\<rparr>"

text \<open>
  \<^verbatim>\<open>RepeatableJobFactory\<close>: every hour, first one minute after the epoch, here with a
  timeout of 30 seconds.
\<close>

definition repeatable_world :: world where
  "repeatable_world =
     factory_world\<lparr>self := factory_job\<lparr>timeout := Some 30,
                                            kind := RepeatableJob 60000000 1 hours None\<rparr>\<rparr>"

text \<open>
  A cron job, every five minutes, with a timeout of 30 seconds: it is registered, its
  row is as the instance is, and it is about to be saved again.
\<close>

definition cron_job :: job where
  "cron_job =
     factory_job\<lparr>job_id := Some ''job-'', timeout := Some 30,
                 kind := CronJob ''*/5 * * * *'' None\<rparr>"

definition cron_world :: world where
  "cron_world =
     factory_world\<lparr>self := cron_job, redis := (\<lambda>k. {})(0 := {''job-''}), issued := 1,
                   row := Some cron_job\<rparr>"

text \<open>
  A job is saved, disabled and saved, loaded again, enabled and saved while the
  scheduler refuses to enqueue, and saved twice more when the scheduler is back.
\<close>

definition toggle_steps :: "step list" where
  "toggle_steps =
     [Save, Assign (SetEnabled False), Save, Reload, Assign (SetEnabled True),
      Environment (no_faults\<lparr>enqueue_fails := True\<rparr>), Save, Environment no_faults, Save, Save]"




section \<open>Properties\<close>

subsection \<open>What each method does\<close>

lemma str_split_parts: "str_split sep s \<noteq> []"
  by (induction s) (simp_all split: list.splits)

lemma is_scheduled_eq:
  "is_scheduled w =
     (if queue (self w) \<notin> rq_queues w then (Inl KeyError, w)
      else if contains_fails (faults w) then (Inl BackendError, w)
      else (Inr (in_scheduler w), w))"
  by (simp add: is_scheduled_def and_then_def scheduler_def scheduler_contains_def
      returns_def raises_def in_scheduler_def scheduled_jobs_def conn_def
      split: option.splits)

lemma unschedule_eq:
  "unschedule w =
     (if queue (self w) \<notin> rq_queues w then (Inl KeyError, w)
      else if contains_fails (faults w) then (Inl BackendError, w)
      else if in_scheduler w then
        (if cancel_fails (faults w) then (Inl BackendError, w) else (Inr True, cancelled w))
      else (Inr True, set_job_id None w))"
  by (simp add: unschedule_def and_then_def is_scheduled_eq scheduler_def scheduler_cancel_def
      returns_def raises_def cancelled_def set_scheduled_def scheduled_jobs_def conn_def)

lemma unschedule_cases:
  "(\<exists>e. unschedule w = (Inl e, w)) \<or>
   (unschedule w = (Inr True, set_job_id None w) \<and> \<not> in_scheduler w) \<or>
   (unschedule w = (Inr True, cancelled w) \<and> in_scheduler w)"
  by (simp add: unschedule_eq)

lemma unschedule_self:
  "fst (unschedule w) = Inr b \<Longrightarrow> self (snd (unschedule w)) = (self w)\<lparr>job_id := None\<rparr>"
  using unschedule_cases [of w] by (auto simp add: set_job_id_def cancelled_def set_scheduled_def)

lemma unschedule_frame:
  "rq_queues (snd (unschedule w)) = rq_queues w \<and> modules (snd (unschedule w)) = modules w \<and>
   connection (snd (unschedule w)) = connection w \<and>
   issued (snd (unschedule w)) = issued w \<and> row (snd (unschedule w)) = row w \<and>
   faults (snd (unschedule w)) = faults w"
  using unschedule_cases [of w] by (auto simp add: set_job_id_def cancelled_def set_scheduled_def)

lemma unschedule_trace:
  "fst (unschedule w) = Inr b \<Longrightarrow>
   trace (snd (unschedule w)) =
     trace w @ (if in_scheduler w then [Cancelled (job_id (self w))] else [])"
  using unschedule_cases [of w] by (auto simp add: set_job_id_def cancelled_def set_scheduled_def)

lemma unschedule_completes:
  "(\<exists>b. fst (unschedule w) = Inr b) =
     (queue (self w) \<in> rq_queues w \<and> \<not> contains_fails (faults w) \<and>
      (in_scheduler w \<longrightarrow> \<not> cancel_fails (faults w)))"
  by (auto simp add: unschedule_eq)

lemma schedule_not_schedulable: "\<not> is_schedulable (self w) \<Longrightarrow> schedule w = (Inr False, w)"
  by (simp add: schedule_def BaseJob_schedule_def RepeatableJob_schedule_def
      CronJob_schedule_def returns_def split: job_kind.splits)

lemma interval_seconds_eq:
  "interval_seconds (RepeatableJob t n u r) =
     (if 999999999 < (int n * unit_seconds u) div 86400 then Inl OverflowError
      else Inr (int n * unit_seconds u))"
proof -
  have "0 \<le> int n * unit_seconds u"
    by (cases u) simp_all
  then have "0 \<le> (int n * unit_seconds u) div 86400"
    by (simp add: pos_imp_zdiv_nonneg_iff)
  then show ?thesis
    by (simp add: timedelta_def total_seconds_def Let_def)
qed

lemma callable_func_state: "snd (callable_func w) = w"
  by (simp add: callable_func_def import_module_def and_then_def returns_def raises_def Let_def
      split: option.splits)

lemma callable_func_error: "fst (callable_func w) \<noteq> Inl BackendError"
  by (simp add: callable_func_def import_module_def and_then_def returns_def raises_def Let_def
      split: option.splits)

lemma callable_func_reads:
  "callable (self w') = callable (self w) \<Longrightarrow> modules w' = modules w \<Longrightarrow>
   fst (callable_func w') = fst (callable_func w)"
  by (simp add: callable_func_def import_module_def and_then_def returns_def raises_def Let_def
      split: option.splits)

lemma timeout_passed_enqueue_call: "timeout_passed (enqueue_call j f) = timeout_kwarg j"
  by (simp add: enqueue_call_def split: job_kind.splits)

lemma enqueue_call_job_id: "enqueue_call (j\<lparr>job_id := v\<rparr>) f = enqueue_call j f"
  by (simp add: enqueue_call_def timeout_kwarg_def split: job_kind.splits)

lemma schedule_cases:
  "(\<not> is_schedulable (self w) \<and> schedule w = (Inr False, w)) \<or>
   (is_schedulable (self w) \<and> \<not> registers w \<and>
      (\<exists>e. schedule w = (Inl e, w) \<and> (e = BackendError \<longrightarrow> enqueue_fails (faults w)))) \<or>
   (is_schedulable (self w) \<and> registers w \<and>
      (\<exists>f. fst (callable_func w) = Inr f \<and>
           schedule w = (Inr True, accepted (enqueue_call (self w) f) w)))"
proof (cases "is_schedulable (self w)")
  case False
  then show ?thesis by (simp add: schedule_not_schedulable)
next
  case True
  obtain r where cf: "callable_func w = (r, w)"
    using callable_func_state [of w] by (cases "callable_func w") simp
  have r: "r \<noteq> Inl BackendError"
    using callable_func_error [of w] cf by simp
  show ?thesis
  proof (cases "kind (self w)")
    case (ScheduledJob t)
    with True cf r show ?thesis
      by (cases r)
         (auto simp add: schedule_def BaseJob_schedule_def registers_def interval_fits_def
            enqueue_call_def schedule_time_utc_def scheduler_def scheduler_enqueue_def
            accepted_def set_scheduled_def scheduled_jobs_def conn_def and_then_def
            returns_def raises_def)
  next
    case (RepeatableJob t n u r')
    with True cf r show ?thesis
      by (cases r)
         (auto simp add: schedule_def RepeatableJob_schedule_def registers_def
            interval_fits_def interval_seconds_eq
            enqueue_call_def schedule_time_utc_def scheduler_def scheduler_enqueue_def
            accepted_def set_scheduled_def scheduled_jobs_def conn_def and_then_def
            returns_def raises_def simp del: interval_seconds.simps)
  next
    case (CronJob c r')
    with True cf r show ?thesis
      by (cases r)
         (auto simp add: schedule_def CronJob_schedule_def registers_def interval_fits_def
            enqueue_call_def scheduler_def scheduler_enqueue_def
            accepted_def set_scheduled_def scheduled_jobs_def conn_def and_then_def
            returns_def raises_def)
  qed
qed

lemma schedule_raised: "fst (schedule w) = Inl e \<Longrightarrow> snd (schedule w) = w"
  using schedule_cases [of w] by auto

lemma schedule_backend_error: "fst (schedule w) = Inl BackendError \<Longrightarrow> enqueue_fails (faults w)"
  using schedule_cases [of w] by auto

lemma save_unfold:
  "save w =
     (case unschedule w of
        (Inl e, w1) \<Rightarrow> (Inl e, w1)
      | (Inr b, w1) \<Rightarrow>
          (case (if enabled (self w1) then schedule w1 else (Inr False, w1)) of
             (Inl e, w2) \<Rightarrow> (Inl e, w2)
           | (Inr b', w2) \<Rightarrow> Model_save w2))"
  by (simp add: save_def and_then_def returns_def split: prod.splits sum.splits)

lemma registers_unscheduled:
  assumes "fst (unschedule w) = Inr b"
  shows "registers (snd (unschedule w)) = registers w"
proof -
  have s: "self (snd (unschedule w)) = (self w)\<lparr>job_id := None\<rparr>"
    using assms by (rule unschedule_self)
  have "fst (callable_func (snd (unschedule w))) = fst (callable_func w)"
    by (rule callable_func_reads) (simp_all add: s unschedule_frame)
  then show ?thesis
    by (simp add: registers_def s unschedule_frame)
qed

lemma save_completes:
  "(fst (save w) = Inr ()) =
     (queue (self w) \<in> rq_queues w \<and> \<not> contains_fails (faults w) \<and>
      (in_scheduler w \<longrightarrow> \<not> cancel_fails (faults w)) \<and>
      (enabled (self w) \<longrightarrow> registers w) \<and>
      \<not> store_fails (faults w))"
proof (cases "\<exists>b. fst (unschedule w) = Inr b")
  case False
  then have "\<not> fst (save w) = Inr ()"
    by (cases "unschedule w"; cases "fst (unschedule w)") (auto simp add: save_unfold)
  with False unschedule_completes [of w] show ?thesis
    by blast
next
  case True
  then obtain b w1 where u: "unschedule w = (Inr b, w1)"
    by (cases "unschedule w") auto
  have s1: "self w1 = (self w)\<lparr>job_id := None\<rparr>" and f1: "faults w1 = faults w"
    and r1: "registers w1 = registers w"
    using unschedule_self [of w b] unschedule_frame [of w] registers_unscheduled [of w b] u
    by simp_all
  have ok: "queue (self w) \<in> rq_queues w \<and> \<not> contains_fails (faults w) \<and>
      (in_scheduler w \<longrightarrow> \<not> cancel_fails (faults w))"
    using True unschedule_completes [of w] by blast
  show ?thesis
  proof (cases "enabled (self w)")
    case False
    with u s1 f1 have "(fst (save w) = Inr ()) = (\<not> store_fails (faults w))"
      by (simp add: save_unfold Model_save_def returns_def raises_def)
    with False ok show ?thesis by blast
  next
    case en: True
    have sch: "is_schedulable (self w1)"
      using en s1 by (simp add: is_schedulable_def)
    show ?thesis
    proof (cases "registers w")
      case False
      with schedule_cases [of w1] sch r1 obtain e where "schedule w1 = (Inl e, w1)"
        by auto
      with u s1 en have "fst (save w) \<noteq> Inr ()"
        by (simp add: save_unfold)
      with en False show ?thesis by blast
    next
      case True
      with schedule_cases [of w1] sch r1 obtain f
        where "schedule w1 = (Inr True, accepted (enqueue_call (self w1) f) w1)"
        by auto
      with u s1 f1 have "(fst (save w) = Inr ()) = (\<not> store_fails (faults w))"
        by (simp add: save_unfold Model_save_def returns_def raises_def accepted_def
            set_job_id_def set_scheduled_def)
      with en True ok show ?thesis by blast
    qed
  qed
qed

lemma save_completed_self:
  assumes "fst (save w) = Inr ()"
  shows "self (snd (save w)) =
           (self w)\<lparr>job_id := (if enabled (self w) then Some (new_job_id (issued w)) else None)\<rparr>
         \<and> row (snd (save w)) = Some (self (snd (save w)))"
proof -
  obtain b w1 where u: "unschedule w = (Inr b, w1)"
    using assms by (cases "unschedule w"; cases "fst (unschedule w)") (auto simp add: save_unfold)
  have s1: "self w1 = (self w)\<lparr>job_id := None\<rparr>" and i1: "issued w1 = issued w"
    using unschedule_self [of w b] unschedule_frame [of w] u by simp_all
  show ?thesis
  proof (cases "enabled (self w)")
    case False
    with assms u s1 show ?thesis
      by (auto simp add: save_unfold Model_save_def returns_def raises_def split: if_splits)
  next
    case True
    with schedule_cases [of w1] assms u s1 i1 show ?thesis
      by (auto simp add: save_unfold Model_save_def returns_def raises_def accepted_def
          set_job_id_def set_scheduled_def is_schedulable_def split: if_splits)
  qed
qed

subsection \<open>The invariant of a run\<close>






















subsection \<open>The interval of a repeatable job\<close>

lemma within_timedelta:
  assumes "int n * k \<le> 86399999999999"
  shows "\<not> 999999999 < (int n * k) div 86400"
proof -
  have "(int n * k) div 86400 \<le> 86399999999999 div 86400"
    using assms by (rule zdiv_mono1) simp
  then show ?thesis by simp
qed

lemma beyond_timedelta:
  assumes "86400000000000 \<le> int n * k"
  shows "999999999 < (int n * k) div 86400"
proof -
  have "86400000000000 div 86400 \<le> (int n * k) div 86400"
    using assms by (rule zdiv_mono1) simp
  then show ?thesis by simp
qed

subsection \<open>The methods on the instances of the test suite\<close>

lemmas run_defs =
  save_def unschedule_def schedule_def BaseJob_schedule_def RepeatableJob_schedule_def
  CronJob_schedule_def is_scheduled_def is_schedulable_def scheduler_def scheduler_contains_def
  scheduler_cancel_def scheduler_enqueue_def Model_save_def callable_func_def import_module_def
  timeout_kwarg_def schedule_time_utc_def set_job_id_def and_then_def returns_def raises_def
  new_job_id_def

lemmas factory_defs =
  factory_world_def factory_job_def test_modules_def test_connection_def no_faults_def

lemma factory_save:
  "save factory_world =
     (Inr (),
      factory_world
        \<lparr>self := factory_job\<lparr>job_id := Some ''job-''\<rparr>,
         redis := (\<lambda>k. {})(0 := {''job-''}),
         issued := 1,
         row := Some (factory_job\<lparr>job_id := Some ''job-''\<rparr>),
         trace :=
           [Enqueued (EnqueueAt 86400000000 (Function ''scheduled.tests.test_job'') None)
              ''job-'',
            StoreSaved (factory_job\<lparr>job_id := Some ''job-''\<rparr>)]\<rparr>)"
  by (simp add: run_defs factory_defs)

lemma disabled_save:
  "save disabled_world =
     (Inr (),
      disabled_world
        \<lparr>self := factory_job\<lparr>enabled := False\<rparr>,
         redis := (\<lambda>k. {})(0 := {}),
         row := Some (factory_job\<lparr>enabled := False\<rparr>),
         trace := [Cancelled (Some ''job-''), StoreSaved (factory_job\<lparr>enabled := False\<rparr>)]\<rparr>)"
  by (simp add: run_defs factory_defs disabled_world_def)

lemma unreachable_unschedule:
  "unschedule unreachable_world =
     (Inr True,
      unreachable_world\<lparr>self := factory_job, redis := (\<lambda>k. {})(0 := {}),
                        trace := [Cancelled (Some ''job-'')]\<rparr>)"
  by (simp add: run_defs factory_defs disabled_world_def unreachable_world_def)

lemma unreachable_schedule:
  "fst (schedule (unreachable_world\<lparr>self := factory_job, redis := (\<lambda>k. {})(0 := {}),
                        trace := [Cancelled (Some ''job-'')]\<rparr>)) = Inl BackendError"
  by (simp add: run_defs factory_defs disabled_world_def unreachable_world_def)

lemma repeatable_schedule:
  "schedule repeatable_world =
    (Inr True,
     repeatable_world
       \<lparr>self := (self repeatable_world)\<lparr>job_id := Some ''job-''\<rparr>,
        redis := (\<lambda>k. {})(0 := {''job-''}), issued := 1,
        trace := [Enqueued (Schedule 60000000 (Function ''scheduled.tests.test_job'') 3600 None
                    (Some 30)) ''job-'']\<rparr>)"
  by (simp add: run_defs factory_defs repeatable_world_def timedelta_def total_seconds_def)

lemma cron_callable:
  "fst (callable_func cron_world) = Inr (Function ''scheduled.tests.test_job'')"
  by (simp add: run_defs factory_defs cron_world_def cron_job_def)

lemma cron_save:
  "trace (snd (save cron_world)) =
     [Cancelled (Some ''job-''),
      Enqueued (Cron (Function ''scheduled.tests.test_job'') ''*/5 * * * *'' None (Some 30))
        ''job-i'',
      StoreSaved (cron_job\<lparr>job_id := Some ''job-i''\<rparr>)] \<and>
   row (snd (save cron_world)) = Some (cron_job\<lparr>job_id := Some ''job-i''\<rparr>) \<and>
   scheduled_jobs (snd (save cron_world)) = {''job-i''}"
  by (simp add: run_defs factory_defs cron_world_def cron_job_def scheduled_jobs_def conn_def)

lemma toggle_run:
  "trace (run toggle_steps factory_world) =
     [Enqueued (EnqueueAt 86400000000 (Function ''scheduled.tests.test_job'') None) ''job-'',
      StoreSaved (factory_job\<lparr>job_id := Some ''job-''\<rparr>),
      Cancelled (Some ''job-''),
      StoreSaved (factory_job\<lparr>enabled := False\<rparr>),
      Enqueued (EnqueueAt 86400000000 (Function ''scheduled.tests.test_job'') None) ''job-i'',
      StoreSaved (factory_job\<lparr>job_id := Some ''job-i''\<rparr>),
      Cancelled (Some ''job-i''),
      Enqueued (EnqueueAt 86400000000 (Function ''scheduled.tests.test_job'') None) ''job-ii'',
      StoreSaved (factory_job\<lparr>job_id := Some ''job-ii''\<rparr>)] \<and>
   redis (run toggle_steps factory_world) 0 = {''job-ii''} \<and>
   job_id (self (run toggle_steps factory_world)) = Some ''job-ii''"
  by (simp add: run_defs factory_defs toggle_steps_def)




section \<open>The claims of the specification\<close>

text \<open>
  Claim C1. \<^verbatim>\<open>save()\<close> completes exactly when the queue is configured, the scheduler
  answers the query and, if it has the job, the cancellation, the registration goes
  through if the instance is enabled (the callable resolves, the interval fits, the
  scheduler accepts the call), and the database takes the write. When it completes it
  has done exactly this, in this order: it has cancelled the job the instance held if
  the scheduler still had it, then, only if the instance is enabled, made the one
  enqueueing call of its class and stored the id it got in the instance, and only then
  written the row, with the instance as it is after these steps. Nothing but
  \<^verbatim>\<open>job_id\<close> changes in the instance, and the scheduler has lost the old job and
  gained the new one.
\<close>

theorem save_sequence:
  "(fst (save w) = Inr ()) =
     (queue (self w) \<in> rq_queues w \<and> \<not> contains_fails (faults w) \<and>
      (in_scheduler w \<longrightarrow> \<not> cancel_fails (faults w)) \<and>
      (enabled (self w) \<longrightarrow> registers w) \<and>
      \<not> store_fails (faults w)) \<and>
   (fst (save w) = Inr () \<longrightarrow>
      (\<exists>f. (enabled (self w) \<longrightarrow> fst (callable_func w) = Inr f) \<and>
           trace (snd (save w)) =
             trace w
             @ (if in_scheduler w then [Cancelled (job_id (self w))] else [])
             @ (if enabled (self w)
                then [Enqueued (enqueue_call (self w) f) (new_job_id (issued w))] else [])
             @ [StoreSaved (self (snd (save w)))]) \<and>
      self (snd (save w)) =
        (self w)\<lparr>job_id := (if enabled (self w) then Some (new_job_id (issued w)) else None)\<rparr> \<and>
      row (snd (save w)) = Some (self (snd (save w))) \<and>
      scheduled_jobs (snd (save w)) =
        (scheduled_jobs w - set_option (job_id (self w)))
        \<union> (if enabled (self w) then {new_job_id (issued w)} else {}))"
proof (intro conjI impI)
  show "(fst (save w) = Inr ()) =
     (queue (self w) \<in> rq_queues w \<and> \<not> contains_fails (faults w) \<and>
      (in_scheduler w \<longrightarrow> \<not> cancel_fails (faults w)) \<and>
      (enabled (self w) \<longrightarrow> registers w) \<and>
      \<not> store_fails (faults w))"
    by (rule save_completes)
next
  assume completed: "fst (save w) = Inr ()"
  then show "self (snd (save w)) =
        (self w)\<lparr>job_id := (if enabled (self w) then Some (new_job_id (issued w)) else None)\<rparr>"
    and "row (snd (save w)) = Some (self (snd (save w)))"
    using save_completed_self [of w] by simp_all
  from completed obtain b where ub: "fst (unschedule w) = Inr b"
    by (cases "unschedule w"; cases "fst (unschedule w)") (auto simp add: save_unfold)
  define w1 where "w1 = snd (unschedule w)"
  have u: "unschedule w = (Inr b, w1)"
    using ub by (simp add: w1_def prod_eq_iff)
  have s1: "self w1 = (self w)\<lparr>job_id := None\<rparr>"
    and t1: "trace w1 = trace w @ (if in_scheduler w then [Cancelled (job_id (self w))] else [])"
    and i1: "issued w1 = issued w"
    using unschedule_self [OF ub] unschedule_trace [OF ub] unschedule_frame [of w]
    by (simp_all add: w1_def)
  have j1: "scheduled_jobs w1 = scheduled_jobs w - set_option (job_id (self w))"
    using unschedule_cases [of w] u
    by (auto simp add: cancelled_def set_job_id_def set_scheduled_def scheduled_jobs_def
        conn_def in_scheduler_def split: option.splits)
  have j1': "redis w1 (connection w1 (queue (self w))) =
      redis w (connection w (queue (self w))) - set_option (job_id (self w))"
    using j1 s1 by (simp add: scheduled_jobs_def conn_def)
  have c1: "enqueue_call (self w1) f = enqueue_call (self w) f" for f
    by (simp add: s1 enqueue_call_job_id)
  have m1: "modules w1 = modules w"
    using unschedule_frame [of w] by (simp add: w1_def)
  have cf: "fst (callable_func w1) = fst (callable_func w)"
    by (rule callable_func_reads) (simp_all add: s1 m1)
  have both: "(\<exists>f. (enabled (self w) \<longrightarrow> fst (callable_func w) = Inr f) \<and>
           trace (snd (save w)) =
             trace w
             @ (if in_scheduler w then [Cancelled (job_id (self w))] else [])
             @ (if enabled (self w)
                then [Enqueued (enqueue_call (self w) f) (new_job_id (issued w))] else [])
             @ [StoreSaved (self (snd (save w)))]) \<and>
      scheduled_jobs (snd (save w)) =
        (scheduled_jobs w - set_option (job_id (self w)))
        \<union> (if enabled (self w) then {new_job_id (issued w)} else {})"
  proof (cases "enabled (self w)")
    case False
    with completed u s1 t1 j1 show ?thesis
      by (auto simp add: save_unfold Model_save_def returns_def raises_def
          scheduled_jobs_def conn_def split: if_splits)
  next
    case True
    have "is_schedulable (self w1)"
      using True s1 by (simp add: is_schedulable_def)
    with schedule_cases [of w1] completed u s1 True obtain f
      where f: "fst (callable_func w1) = Inr f"
        and sch: "schedule w1 = (Inr True, accepted (enqueue_call (self w1) f) w1)"
      by (auto simp add: save_unfold)
    from completed u s1 True sch
    have sv: "snd (save w) =
        (accepted (enqueue_call (self w) f) w1)
          \<lparr>row := Some (self (accepted (enqueue_call (self w) f) w1)),
           trace := trace (accepted (enqueue_call (self w) f) w1)
             @ [StoreSaved (self (accepted (enqueue_call (self w) f) w1))]\<rparr>"
      by (auto simp add: save_unfold enqueue_call_job_id Model_save_def returns_def raises_def
          split: if_splits)
    have "trace (snd (save w)) =
             trace w
             @ (if in_scheduler w then [Cancelled (job_id (self w))] else [])
             @ [Enqueued (enqueue_call (self w) f) (new_job_id (issued w))]
             @ [StoreSaved (self (snd (save w)))]"
      by (subst (1 2) sv) (simp add: accepted_def set_job_id_def set_scheduled_def t1 i1)
    moreover have "scheduled_jobs (snd (save w)) =
        (scheduled_jobs w - set_option (job_id (self w))) \<union> {new_job_id (issued w)}"
      by (subst sv)
         (simp add: accepted_def set_job_id_def set_scheduled_def scheduled_jobs_def conn_def
            j1' i1 s1)
    ultimately show ?thesis
      using True f cf by auto
  qed
  from both show "\<exists>f. (enabled (self w) \<longrightarrow> fst (callable_func w) = Inr f) \<and>
           trace (snd (save w)) =
             trace w
             @ (if in_scheduler w then [Cancelled (job_id (self w))] else [])
             @ (if enabled (self w)
                then [Enqueued (enqueue_call (self w) f) (new_job_id (issued w))] else [])
             @ [StoreSaved (self (snd (save w)))]"
    by blast
  from both show "scheduled_jobs (snd (save w)) =
        (scheduled_jobs w - set_option (job_id (self w)))
        \<union> (if enabled (self w) then {new_job_id (issued w)} else {})"
    by blast
qed

text \<open>
  The registered cron job is saved again: its conditions hold, so the save completes;
  the old job is cancelled, the cron call is made with the timeout, and the row is
  written with the new id.
\<close>

theorem save_sequence_witness:
  "queue (self cron_world) \<in> rq_queues cron_world \<and> in_scheduler cron_world \<and>
   enabled (self cron_world) \<and> registers cron_world \<and>
   fst (save cron_world) = Inr () \<and>
   trace (snd (save cron_world)) =
     [Cancelled (Some ''job-''),
      Enqueued (Cron (Function ''scheduled.tests.test_job'') ''*/5 * * * *'' None (Some 30))
        ''job-i'',
      StoreSaved (cron_job\<lparr>job_id := Some ''job-i''\<rparr>)] \<and>
   row (snd (save cron_world)) = Some (cron_job\<lparr>job_id := Some ''job-i''\<rparr>) \<and>
   scheduled_jobs (snd (save cron_world)) = {''job-i''}"
proof -
  have c: "queue (self cron_world) \<in> rq_queues cron_world" "in_scheduler cron_world"
    "enabled (self cron_world)" "\<not> contains_fails (faults cron_world)"
    "\<not> cancel_fails (faults cron_world)" "\<not> store_fails (faults cron_world)"
    "\<not> enqueue_fails (faults cron_world)" "interval_fits (kind (self cron_world))"
    "scheduled_jobs cron_world = {''job-''}" "job_id (self cron_world) = Some ''job-''"
    "issued cron_world = 1" "trace cron_world = []"
    by (simp_all add: cron_world_def cron_job_def factory_defs in_scheduler_def
        scheduled_jobs_def conn_def interval_fits_def)
  have r: "registers cron_world"
    using c by (simp add: registers_def cron_callable)
  from save_sequence [of cron_world] c r
  have "fst (save cron_world) = Inr ()"
    and "scheduled_jobs (snd (save cron_world)) = {new_job_id 1}"
    by simp_all
  with c r cron_save show ?thesis
    by (simp add: new_job_id_def)
qed




text \<open>
  Claim C3. After a \<^verbatim>\<open>save()\<close> that completes, an instance that is not enabled holds
  no job id, and neither does the row that was written.
\<close>

theorem disabled_unregistered:
  assumes "fst (save w) = Inr ()" and "\<not> enabled (self (snd (save w)))"
  shows "job_id (self (snd (save w))) = None \<and>
         (\<exists>r. row (snd (save w)) = Some r \<and> job_id r = None \<and> \<not> enabled r)"
proof -
  from save_completed_self [OF assms(1)]
  have s: "self (snd (save w)) =
        (self w)\<lparr>job_id := (if enabled (self w) then Some (new_job_id (issued w)) else None)\<rparr>"
    and r: "row (snd (save w)) = Some (self (snd (save w)))"
    by auto
  have "enabled (self (snd (save w))) = enabled (self w)"
    by (subst s) simp
  with assms(2) have "\<not> enabled (self w)" by simp
  with s r assms(2) show ?thesis by simp
qed

text \<open>A registered job that was disabled: the save cancels it and clears the id.\<close>

theorem disabled_unregistered_witness:
  "fst (save disabled_world) = Inr () \<and>
   \<not> enabled (self (snd (save disabled_world))) \<and>
   job_id (self disabled_world) = Some ''job-'' \<and>
   job_id (self (snd (save disabled_world))) = None"
  using disabled_unregistered [of disabled_world]
  by (simp add: disabled_save) (simp add: disabled_world_def factory_defs)

text \<open>
  Claim C4. The instance is enabled, \<^verbatim>\<open>unschedule\<close> has returned and the call that
  enqueues the job raises: then \<^verbatim>\<open>save()\<close> raises that exception, the instance is left
  without a job id, the row is the one that was there before, and the only effect of
  the save is the cancellation, if there was one: nothing is written.
\<close>

theorem enqueue_failure_unregistered:
  assumes "enabled (self w)"
    and "fst (unschedule w) = Inr True"
    and "fst (schedule (snd (unschedule w))) = Inl BackendError"
  shows "fst (save w) = Inl BackendError \<and>
         job_id (self (snd (save w))) = None \<and>
         row (snd (save w)) = row w \<and>
         trace (snd (save w)) =
           trace w @ (if in_scheduler w then [Cancelled (job_id (self w))] else [])"
proof -
  obtain w1 where u: "unschedule w = (Inr True, w1)"
    using assms(2) by (cases "unschedule w") simp
  have s1: "self w1 = (self w)\<lparr>job_id := None\<rparr>"
    using unschedule_self [of w True] u by simp
  have sch: "schedule w1 = (Inl BackendError, w1)"
    using assms(3) schedule_raised [of w1 BackendError] u by (cases "schedule w1") simp
  have "save w = (Inl BackendError, w1)"
    using u s1 sch assms(1) by (simp add: save_unfold)
  then show ?thesis
    using u s1 unschedule_frame [of w] unschedule_trace [of w True] by simp
qed

text \<open>A registered, enabled job, saved while the scheduler refuses to enqueue.\<close>

theorem enqueue_failure_unregistered_witness:
  "enabled (self unreachable_world) \<and>
   job_id (self unreachable_world) = Some ''job-'' \<and>
   fst (unschedule unreachable_world) = Inr True \<and>
   fst (schedule (snd (unschedule unreachable_world))) = Inl BackendError \<and>
   fst (save unreachable_world) = Inl BackendError \<and>
   job_id (self (snd (save unreachable_world))) = None \<and>
   row (snd (save unreachable_world)) = None \<and>
   trace (snd (save unreachable_world)) = [Cancelled (Some ''job-'')]"
proof -
  have e: "enabled (self unreachable_world)" "job_id (self unreachable_world) = Some ''job-''"
    "row unreachable_world = None" "trace unreachable_world = []" "in_scheduler unreachable_world"
    by (simp_all add: unreachable_world_def disabled_world_def factory_defs in_scheduler_def
        scheduled_jobs_def conn_def)
  have u: "fst (unschedule unreachable_world) = Inr True"
    by (simp add: unreachable_unschedule)
  have s: "fst (schedule (snd (unschedule unreachable_world))) = Inl BackendError"
    by (simp add: unreachable_unschedule unreachable_schedule)
  from enqueue_failure_unregistered [OF e(1) u s] e u s show ?thesis by simp
qed

text \<open>
  Claim C5, as the code has it. \<^verbatim>\<open>unschedule\<close> calls \<^verbatim>\<open>cancel\<close> when
  \<^verbatim>\<open>is_scheduled()\<close> is true, that is when the scheduler still holds the id of the
  instance, and not whenever the id is not null. When it returns, it returns
  \<^verbatim>\<open>True\<close>, the id is cleared, the scheduler no longer holds it, and the one effect
  is the cancellation, if the scheduler held the id. \<^verbatim>\<open>enabled\<close> plays no part: with
  any other value of it the run is the same.
\<close>

theorem unschedule_effect:
  assumes "fst (unschedule w) = Inr b"
  shows "b = True \<and>
         job_id (self (snd (unschedule w))) = None \<and>
         trace (snd (unschedule w)) =
           trace w @ (if in_scheduler w then [Cancelled (job_id (self w))] else []) \<and>
         scheduled_jobs (snd (unschedule w)) = scheduled_jobs w - set_option (job_id (self w)) \<and>
         unschedule (w\<lparr>self := (self w)\<lparr>enabled := e\<rparr>\<rparr>) =
           (Inr True, (snd (unschedule w))\<lparr>self := (self (snd (unschedule w)))\<lparr>enabled := e\<rparr>\<rparr>)"
proof -
  have "in_scheduler (w\<lparr>self := (self w)\<lparr>enabled := e\<rparr>\<rparr>) = in_scheduler w"
    by (simp add: in_scheduler_def scheduled_jobs_def conn_def split: option.splits)
  with assms show ?thesis
    by (auto simp add: unschedule_eq cancelled_def set_job_id_def set_scheduled_def
        scheduled_jobs_def conn_def in_scheduler_def split: if_splits option.splits)
qed

text \<open>A disabled instance whose job the scheduler holds: the job is cancelled.\<close>

theorem unschedule_effect_witness:
  "fst (unschedule disabled_world) = Inr True \<and>
   \<not> enabled (self disabled_world) \<and>
   job_id (self disabled_world) = Some ''job-'' \<and>
   job_id (self (snd (unschedule disabled_world))) = None \<and>
   trace (snd (unschedule disabled_world)) = [Cancelled (Some ''job-'')] \<and>
   scheduled_jobs (snd (unschedule disabled_world)) = {}"
proof -
  have u: "fst (unschedule disabled_world) = Inr True"
    by (simp add: run_defs factory_defs disabled_world_def)
  have "in_scheduler disabled_world" "trace disabled_world = []"
    "scheduled_jobs disabled_world = {''job-''}" "job_id (self disabled_world) = Some ''job-''"
    "\<not> enabled (self disabled_world)"
    by (simp_all add: in_scheduler_def scheduled_jobs_def conn_def factory_defs
        disabled_world_def)
  with unschedule_effect [OF u] u show ?thesis by simp
qed

text \<open>
  Claim C5 as stated fails on \<^verbatim>\<open>test_unschedule\<close>: the instance holds the id
  \<^verbatim>\<open>'something'\<close>, the scheduler does not, and \<^verbatim>\<open>unschedule\<close> clears the id without
  a call to \<^verbatim>\<open>cancel\<close>.
\<close>

theorem unschedule_stale_handle_counterexample:
  "job_id (self stale_world) = Some ''something'' \<and>
   fst (unschedule stale_world) = Inr True \<and>
   job_id (self (snd (unschedule stale_world))) = None \<and>
   trace (snd (unschedule stale_world)) = []"
  by (simp add: run_defs factory_defs stale_world_def)

text \<open>
  Claim C6. \<^verbatim>\<open>is_scheduled()\<close> returns \<^verbatim>\<open>True\<close> exactly when the instance holds an
  id and the scheduler of its queue answers that it has a job of that id (the queue is
  configured, the query does not raise, the id is in the set of scheduled jobs); and
  it leaves the instance, the scheduler and the database as they were.
\<close>

theorem is_scheduled_iff:
  "(fst (is_scheduled w) = Inr True) =
     (\<exists>h. job_id (self w) = Some h \<and> queue (self w) \<in> rq_queues w \<and>
          \<not> contains_fails (faults w) \<and> h \<in> scheduled_jobs w)
   \<and> snd (is_scheduled w) = w"
  by (auto simp add: is_scheduled_eq in_scheduler_def split: option.splits)

text \<open>
  Claim C7. A time before \<open>now\<close> is refused with an error filed under
  \<^verbatim>\<open>scheduled_time\<close>, and a time one day after \<open>now\<close> passes. A time equal to \<open>now\<close>
  passes as well: the comparison is \<^verbatim>\<open>data < now()\<close>, while the message of the error
  asks for a time in the future.
\<close>

theorem clean_scheduled_time_at_now:
  "clean_scheduled_time now now = Inr now \<and> field_errors now now = [] \<and>
   field_errors (now - 1) now = [(''scheduled_time'', FormValidationError)] \<and>
   clean_scheduled_time (now + 86400000000) now = Inr (now + 86400000000)"
  by (simp add: clean_scheduled_time_def field_errors_def)

text \<open>
  Claim C8, as the code has it. The interval in seconds is the magnitude times 60,
  3600, 86400 or 604800 as long as the interval is one \<^verbatim>\<open>timedelta\<close> can hold, which
  is less than a thousand million days: up to 1439999999999 minutes, 23999999999
  hours, 999999999 days or 142857142 weeks. Beyond that \<^verbatim>\<open>timedelta\<close> raises
  \<^verbatim>\<open>OverflowError\<close>.
\<close>

theorem interval_seconds_exact:
  "interval_seconds (RepeatableJob t n minutes r) =
     (if n \<le> 1439999999999 then Inr (int n * 60) else Inl OverflowError) \<and>
   interval_seconds (RepeatableJob t n hours r) =
     (if n \<le> 23999999999 then Inr (int n * 3600) else Inl OverflowError) \<and>
   interval_seconds (RepeatableJob t n days r) =
     (if n \<le> 999999999 then Inr (int n * 86400) else Inl OverflowError) \<and>
   interval_seconds (RepeatableJob t n weeks r) =
     (if n \<le> 142857142 then Inr (int n * 604800) else Inl OverflowError)"
proof -
  have fits: "interval_seconds (RepeatableJob t n u r) = Inr (int n * unit_seconds u)"
    if "int n * unit_seconds u \<le> 86399999999999" for u
    using within_timedelta [OF that] by (simp only: interval_seconds_eq if_False)
  have over: "interval_seconds (RepeatableJob t n u r) = Inl OverflowError"
    if "86400000000000 \<le> int n * unit_seconds u" for u
    using beyond_timedelta [OF that] by (simp only: interval_seconds_eq if_True)
  have "interval_seconds (RepeatableJob t n minutes r) =
          (if n \<le> 1439999999999 then Inr (int n * 60) else Inl OverflowError)"
    using fits [of minutes] over [of minutes] by (cases "n \<le> 1439999999999") simp_all
  moreover have "interval_seconds (RepeatableJob t n hours r) =
          (if n \<le> 23999999999 then Inr (int n * 3600) else Inl OverflowError)"
    using fits [of hours] over [of hours] by (cases "n \<le> 23999999999") simp_all
  moreover have "interval_seconds (RepeatableJob t n days r) =
          (if n \<le> 999999999 then Inr (int n * 86400) else Inl OverflowError)"
    using fits [of days] over [of days] by (cases "n \<le> 999999999") simp_all
  moreover have "interval_seconds (RepeatableJob t n weeks r) =
          (if n \<le> 142857142 then Inr (int n * 604800) else Inl OverflowError)"
    using fits [of weeks] over [of weeks] by (cases "n \<le> 142857142") simp_all
  ultimately show ?thesis by (simp only: simp_thms)
qed

text \<open>The four intervals of the specification: two weeks, two days, two hours, 15 minutes.\<close>

theorem interval_seconds_exact_witness:
  "interval_seconds (RepeatableJob 0 2 weeks None) = Inr 1209600 \<and>
   interval_seconds (RepeatableJob 0 2 days None) = Inr 172800 \<and>
   interval_seconds (RepeatableJob 0 2 hours None) = Inr 7200 \<and>
   interval_seconds (RepeatableJob 0 15 minutes None) = Inr 900"
  using interval_seconds_exact [where n = 2 and t = 0 and r = None]
    interval_seconds_exact [where n = 15 and t = 0 and r = None]
  by simp

text \<open>
  Claim C8 as stated fails for a thousand million days: \<^verbatim>\<open>timedelta\<close> raises
  \<^verbatim>\<open>OverflowError\<close> and there is no interval.
\<close>

theorem interval_seconds_overflow_counterexample:
  "interval_seconds (RepeatableJob 0 1000000000 days None) = Inl OverflowError \<and>
   interval_seconds (RepeatableJob 0 1000000000 days None) \<noteq> Inr (1000000000 * 86400)"
  by (simp add: timedelta_def)

text \<open>
  Claim C9, as the code has it. When \<^verbatim>\<open>schedule()\<close> registers the job, its one effect
  is the enqueueing call, and the call carries the timeout of the instance when that
  is neither null nor zero, and no timeout otherwise.
\<close>

theorem timeout_forwarded:
  assumes "fst (schedule w) = Inr True"
  shows "\<exists>c. trace (snd (schedule w)) = trace w @ [Enqueued c (new_job_id (issued w))] \<and>
             timeout_passed c =
               (case timeout (self w) of None \<Rightarrow> None
                | Some t \<Rightarrow> if t = 0 then None else Some t)"
proof -
  from schedule_cases [of w] assms obtain f
    where "schedule w = (Inr True, accepted (enqueue_call (self w) f) w)"
    by auto
  moreover have "timeout_passed (enqueue_call (self w) f) = timeout_kwarg (self w)"
    by (rule timeout_passed_enqueue_call)
  ultimately show ?thesis
    by (auto simp add: accepted_def set_job_id_def set_scheduled_def timeout_kwarg_def
        split: option.splits)
qed

text \<open>The repeatable job with a timeout of 30 seconds: the call carries it.\<close>

theorem timeout_forwarded_witness:
  "fst (schedule repeatable_world) = Inr True \<and>
   timeout (self repeatable_world) = Some 30 \<and>
   trace (snd (schedule repeatable_world)) =
     [Enqueued (Schedule 60000000 (Function ''scheduled.tests.test_job'') 3600 None (Some 30))
        ''job-'']"
  using timeout_forwarded [of repeatable_world]
  by (simp add: repeatable_schedule) (simp add: repeatable_world_def)

text \<open>
  Claim C9 as stated fails for a timeout of zero: it is not null, and the call carries
  no timeout.
\<close>

theorem zero_timeout_counterexample:
  "timeout (self zero_timeout_world) = Some 0 \<and>
   fst (schedule zero_timeout_world) = Inr True \<and>
   trace (snd (schedule zero_timeout_world)) =
     [Enqueued (EnqueueAt 86400000000 (Function ''scheduled.tests.test_job'') None) ''job-'']"
  by (simp add: run_defs factory_defs zero_timeout_world_def)

text \<open>
  Claim C10, as the code has it. \<^verbatim>\<open>schedule()\<close> returns \<^verbatim>\<open>False\<close> and changes nothing
  when the instance holds a job id that is not the empty string, or when it is not
  enabled.
\<close>

theorem schedule_refused:
  assumes "(\<exists>h. job_id (self w) = Some h \<and> h \<noteq> []) \<or> \<not> enabled (self w)"
  shows "schedule w = (Inr False, w)"
proof -
  from assms have "\<not> is_schedulable (self w)"
    by (auto simp add: is_schedulable_def)
  then show ?thesis by (rule schedule_not_schedulable)
qed

text \<open>An enabled instance that holds an id, and a disabled one.\<close>

theorem schedule_refused_witness:
  "job_id (self stale_world) = Some ''something'' \<and> enabled (self stale_world) \<and>
   schedule stale_world = (Inr False, stale_world) \<and>
   job_id (self disabled_world) = Some ''job-'' \<and> \<not> enabled (self disabled_world) \<and>
   schedule disabled_world = (Inr False, disabled_world)"
  using schedule_refused [of stale_world] schedule_refused [of disabled_world]
  by (simp add: stale_world_def disabled_world_def factory_defs)

text \<open>
  Claim C10 as stated fails for the empty string: it is not null, but it is false in
  \<^verbatim>\<open>if self.job_id\<close>, and the enabled instance is scheduled.
\<close>

theorem blank_job_id_counterexample:
  "job_id (self blank_id_world) = Some [] \<and>
   fst (schedule blank_id_world) = Inr True \<and>
   job_id (self (snd (schedule blank_id_world))) = Some ''job-'' \<and>
   trace (snd (schedule blank_id_world)) =
     [Enqueued (EnqueueAt 86400000000 (Function ''scheduled.tests.test_job'') None) ''job-'']"
  by (simp add: run_defs factory_defs blank_id_world_def)

end
